theory Spec2Isabelle
  imports Main
begin

section \<open>JavaScript values\<close>

text \<open>
  The server (src/server.js) handles parsed JSON with JavaScript's dynamic operators, so
  the model starts from the values those operators see. A number is an integer of
  magnitude below \<open>2^53\<close> (the identifiers the endpoints take: a double holds them
  exactly and \<open>String\<close> prints them in decimal digits; \<open>-0\<close> and \<open>0\<close> coincide,
  both are falsy and print as \<open>0\<close>). A string is its list of code units, each below
  256. An object is the list of its own properties, every key once. \<open>JUndefined\<close> is
  the value of an absent property.
\<close>

datatype json =
    JUndefined
  | JNull
  | JBool bool
  | JNum int
  | JStr string
  | JArr "json list"
  | JObj "(string \<times> json) list"

text \<open>\<open>!v\<close>, \<open>v || d\<close>, \<open>v ? a : b\<close> and \<open>Boolean(v)\<close> all test this.\<close>

fun truthy :: "json \<Rightarrow> bool" where
  "truthy JUndefined = False"
| "truthy JNull = False"
| "truthy (JBool b) = b"
| "truthy (JNum n) = (n \<noteq> 0)"
| "truthy (JStr s) = (s \<noteq> [])"
| "truthy (JArr xs) = True"
| "truthy (JObj kvs) = True"

definition nullish :: "json \<Rightarrow> bool" where
  "nullish v = (v = JUndefined \<or> v = JNull)"

text \<open>
  Reading a property that no prototype defines (every name the handlers read: text,
  database_id, schema_hint, table_hints, name, sql, question_id, choices, message,
  content, id, public_uuid, data, cols, rows) from a value that is not null or undefined.
\<close>

fun get_prop :: "json \<Rightarrow> string \<Rightarrow> json" where
  "get_prop (JObj kvs) k = (case map_of kvs k of Some v \<Rightarrow> v | None \<Rightarrow> JUndefined)"
| "get_prop v k = JUndefined"

datatype type_error =
    Cannot_convert_object
  | Not_a_function string
  | Cannot_read_nullish string

datatype exn =
    TypeError type_error
  | Error string
  | AxiosError string "json option"

text \<open>\<open>v.k\<close> throws on null and undefined; \<open>v?.k\<close> and \<open>v?.[0]\<close> yield undefined there.\<close>

definition member :: "json \<Rightarrow> string \<Rightarrow> exn + json" where
  "member v k = (if nullish v then Inl (TypeError (Cannot_read_nullish k)) else Inr (get_prop v k))"

definition opt_member :: "json \<Rightarrow> string \<Rightarrow> json" where
  "opt_member v k = (if nullish v then JUndefined else get_prop v k)"

fun opt_index0 :: "json \<Rightarrow> json" where
  "opt_index0 (JArr xs) = (case xs of [] \<Rightarrow> JUndefined | x # _ \<Rightarrow> x)"
| "opt_index0 (JStr s) = (case s of [] \<Rightarrow> JUndefined | c # _ \<Rightarrow> JStr [c])"
| "opt_index0 (JObj kvs) = get_prop (JObj kvs) ''0''"
| "opt_index0 v = JUndefined"

subsection \<open>Strings\<close>

fun join_with :: "string \<Rightarrow> string list \<Rightarrow> string" where
  "join_with sep [] = []"
| "join_with sep [s] = s"
| "join_with sep (s # t # ss) = s @ sep @ join_with sep (t # ss)"

definition digit_char :: "nat \<Rightarrow> char" where
  "digit_char d = (''0123456789'' ! (d mod 10))"

function string_of_nat :: "nat \<Rightarrow> string" where
  "string_of_nat n = (if n < 10 then [digit_char n] else string_of_nat (n div 10) @ [digit_char (n mod 10)])"
  by pat_completeness auto
termination
  by (relation "measure id") auto

definition string_of_int :: "int \<Rightarrow> string" where
  "string_of_int i = (if i < 0 then CHR ''-'' # string_of_nat (nat (- i)) else string_of_nat (nat i))"

text \<open>
  \<open>String(v)\<close> and \<open>`${v}`\<close>. An array joins its elements with a comma, null and
  undefined elements as the empty string. An object prints as \<open>[object Object]\<close> through
  the inherited toString; an own property of that name (never callable in parsed JSON)
  hides it, and the conversion throws a TypeError: \<open>None\<close>.
\<close>

fun to_string :: "json \<Rightarrow> string option" where
  "to_string JUndefined = Some ''undefined''"
| "to_string JNull = Some ''null''"
| "to_string (JBool b) = Some (if b then ''true'' else ''false'')"
| "to_string (JNum n) = Some (string_of_int n)"
| "to_string (JStr s) = Some s"
| "to_string (JArr xs) =
     map_option (join_with '','')
       (those (map (\<lambda>x. if nullish x then Some [] else to_string x) xs))"
| "to_string (JObj kvs) =
     (if map_of kvs ''toString'' = None then Some ''[object Object]'' else None)"

text \<open>White space and line terminators among the code units below 256, as \<open>trim\<close> strips them.\<close>

definition is_space :: "char \<Rightarrow> bool" where
  "is_space c = (c \<in> set [CHR 0x09, CHR 0x0A, CHR 0x0B, CHR 0x0C, CHR 0x0D, CHR 0x20, CHR 0xA0])"

definition trim :: "string \<Rightarrow> string" where
  "trim s = rev (dropWhile is_space (rev (dropWhile is_space s)))"

fun split_on :: "char \<Rightarrow> string \<Rightarrow> string list" where
  "split_on c [] = [[]]"
| "split_on c (x # xs) =
     (if x = c then [] # split_on c xs
      else (case split_on c xs of [] \<Rightarrow> [[x]] | w # ws \<Rightarrow> (x # w) # ws))"

section \<open>Configuration\<close>

text \<open>
  The environment variables read at start-up (lines 12 to 18 and 95): each is a string or
  unset. \<open>ALLOWED_DATABASES\<close> is the list the source computes from its variable.
\<close>

record process_env =
  METABASE_URL :: "string option"
  METABASE_API_KEY :: "string option"
  OPENAI_API_KEY :: "string option"
  ALLOWED_DATABASES_var :: "string option"
  NL_SQL_MODEL :: "string option"

text \<open>\<open>x || d\<close> on a variable: unset and the empty string are falsy.\<close>

definition or_else :: "string option \<Rightarrow> string \<Rightarrow> string" where
  "or_else x d = (case x of None \<Rightarrow> d | Some s \<Rightarrow> if s = [] then d else s)"

definition is_set :: "string option \<Rightarrow> bool" where
  "is_set x = (case x of None \<Rightarrow> False | Some s \<Rightarrow> s \<noteq> [])"

definition ALLOWED_DATABASES :: "process_env \<Rightarrow> string list" where
  "ALLOWED_DATABASES env =
     filter (\<lambda>s. s \<noteq> []) (map trim (split_on CHR '','' (or_else (ALLOWED_DATABASES_var env) [])))"

section \<open>Upstreams and responses\<close>

record http_request =
  req_url :: string
  req_method :: string
  req_data :: json
  req_headers :: "(string \<times> string) list"
  req_timeout :: nat

text \<open>
  What axios does with a request: it resolves with the parsed payload, or rejects with an
  error that has a message and, when the upstream answered, the answer's payload.
\<close>

datatype upstream_result =
    Resolved json
  | Rejected string "json option"

text \<open>
  The world outside the process: the upstreams, and the wording the runtime gives the
  TypeErrors it raises.
\<close>

record world =
  upstream :: "http_request \<Rightarrow> upstream_result"
  engine_text :: "type_error \<Rightarrow> string"

text \<open>
  What a handler is seen to do: \<open>MetabaseCall\<close> is an invocation of \<open>callMetabase\<close> with
  its path, method and data, \<open>HttpRequest\<close> a request handed to axios.
\<close>

datatype event =
    MetabaseCall string string json
  | HttpRequest http_request

record response =
  res_status :: nat
  res_body :: json

text \<open>\<open>res.json(v)\<close> answers 200, \<open>res.status(n).json(v)\<close> answers n; the body is the value handed over.\<close>

definition res_json :: "json \<Rightarrow> response" where
  "res_json v = \<lparr>res_status = 200, res_body = v\<rparr>"

definition res_status_json :: "nat \<Rightarrow> json \<Rightarrow> response" where
  "res_status_json n v = \<lparr>res_status = n, res_body = v\<rparr>"

fun err_message :: "world \<Rightarrow> exn \<Rightarrow> string" where
  "err_message w (TypeError t) = engine_text w t"
| "err_message w (Error m) = m"
| "err_message w (AxiosError m r) = m"

fun err_name :: "exn \<Rightarrow> string" where
  "err_name (TypeError t) = ''TypeError''"
| "err_name (Error m) = ''Error''"
| "err_name (AxiosError m r) = ''AxiosError''"

text \<open>\<open>String(err.message || err)\<close>: an error with an empty message prints as its name.\<close>

definition err_text :: "world \<Rightarrow> exn \<Rightarrow> string" where
  "err_text w e = (if err_message w e \<noteq> [] then err_message w e else err_name e)"

text \<open>\<open>err.response?.data\<close>\<close>

fun err_response_data :: "exn \<Rightarrow> json" where
  "err_response_data (AxiosError m (Some d)) = d"
| "err_response_data e = JUndefined"

text \<open>\<open>err.response?.data || String(err.message || err)\<close>\<close>

definition err_details :: "world \<Rightarrow> exn \<Rightarrow> json" where
  "err_details w e =
     (if truthy (err_response_data e) then err_response_data e else JStr (err_text w e))"

section \<open>GET /health\<close>

definition health :: "process_env \<Rightarrow> world \<Rightarrow> json \<Rightarrow> event list \<times> response" where
  "health env w req_body =
     ([], res_json (JObj [(''ok'', JBool True), (''service'', JStr ''metabase-mcp-server'')]))"

section \<open>callMetabase\<close>

text \<open>\<open>s.replace(/\/$/, "")\<close>: one slash at the end of the string is removed.\<close>

definition strip_trailing_slash :: "string \<Rightarrow> string" where
  "strip_trailing_slash s = (if s \<noteq> [] \<and> last s = CHR ''/'' then butlast s else s)"

definition metabase_configured :: "process_env \<Rightarrow> bool" where
  "metabase_configured env = (is_set (METABASE_URL env) \<and> is_set (METABASE_API_KEY env))"

definition metabase_request :: "process_env \<Rightarrow> string \<Rightarrow> string \<Rightarrow> json \<Rightarrow> http_request" where
  "metabase_request env path method data =
     \<lparr>req_url = strip_trailing_slash (or_else (METABASE_URL env) []) @ path,
      req_method = method,
      req_data = data,
      req_headers = [(''Content-Type'', ''application/json''),
                     (''X-Metabase-Session'', or_else (METABASE_API_KEY env) [])],
      req_timeout = 30000\<rparr>"

definition not_configured :: exn where
  "not_configured = Error ''Metabase not configured (METABASE_URL / METABASE_API_KEY).''"

text \<open>Both callers pass the method, so the default \<open>GET\<close> of the source is never taken.\<close>

definition callMetabase ::
  "process_env \<Rightarrow> world \<Rightarrow> string \<Rightarrow> string \<Rightarrow> json \<Rightarrow> event list \<times> (exn + json)" where
  "callMetabase env w path method data =
     (if \<not> is_set (METABASE_URL env) \<or> \<not> is_set (METABASE_API_KEY env)
      then ([MetabaseCall path method data], Inl not_configured)
      else
        let req = metabase_request env path method data in
        ([MetabaseCall path method data, HttpRequest req],
         (case upstream w req of
            Resolved d \<Rightarrow> Inr d
          | Rejected m r \<Rightarrow> Inl (AxiosError m r))))"

section \<open>The allow-list check\<close>

text \<open>
  Lines 71 and 142: \<open>ALLOWED_DATABASES.length && !ALLOWED_DATABASES.includes(String(database_id))\<close>.
  \<open>Inr True\<close> is the condition holding (the request is refused), \<open>Inr False\<close> its failing
  (the request goes on); \<open>String\<close> is reached only when the list is not empty.
\<close>

definition not_allowed :: "string list \<Rightarrow> json \<Rightarrow> exn + bool" where
  "not_allowed allowed database_id =
     (if length allowed = 0 then Inr False
      else (case to_string database_id of
              None \<Rightarrow> Inl (TypeError Cannot_convert_object)
            | Some s \<Rightarrow> Inr (s \<notin> set allowed)))"

definition permits :: "string list \<Rightarrow> json \<Rightarrow> bool" where
  "permits allowed database_id = (not_allowed allowed database_id = Inr False)"

definition denies :: "string list \<Rightarrow> json \<Rightarrow> bool" where
  "denies allowed database_id = (not_allowed allowed database_id = Inr True)"

text \<open>\<open>req.body || {}\<close>\<close>

definition body_or_empty :: "json \<Rightarrow> json" where
  "body_or_empty req_body = (if truthy req_body then req_body else JObj [])"

section \<open>POST /natural_language_to_sql\<close>

text \<open>\<open>v.length\<close> and \<open>v.join(sep)\<close> on a truthy value; only an array has a callable join.\<close>

fun js_length :: "json \<Rightarrow> json" where
  "js_length (JArr xs) = JNum (int (length xs))"
| "js_length (JStr s) = JNum (int (length s))"
| "js_length v = get_prop v ''length''"

fun js_join :: "json \<Rightarrow> string \<Rightarrow> exn + string" where
  "js_join (JArr xs) sep =
     (case those (map (\<lambda>x. if nullish x then Some [] else to_string x) xs) of
        None \<Rightarrow> Inl (TypeError Cannot_convert_object)
      | Some ss \<Rightarrow> Inr (join_with sep ss))"
| "js_join v sep = Inl (TypeError (Not_a_function ''join''))"

definition newline :: string where
  "newline = [CHR 0x0A]"

definition rules :: "string list" where
  "rules =
     [''You are a SQL assistant for Metabase, generating safe, read-only SQL for PostgreSQL.'',
      ''RULES:'',
      ''- Only use SELECT statements (no INSERT/UPDATE/DELETE/ALTER/DROP).'',
      ''- Prefer existing tables and columns from the hints.'',
      ''- Do not guess table names beyond the hints; if unsure, say you are unsure.'',
      []]"

text \<open>Lines 79 to 92. The two hints are evaluated in order, each may throw.\<close>

definition systemPrompt :: "json \<Rightarrow> json \<Rightarrow> exn + string" where
  "systemPrompt schema_hint table_hints =
     (case (if truthy schema_hint
            then (case to_string schema_hint of
                    None \<Rightarrow> Inl (TypeError Cannot_convert_object)
                  | Some s \<Rightarrow> Inr (''SCHEMA HINT:'' @ newline @ s))
            else Inr []) of
        Inl e \<Rightarrow> Inl e
      | Inr schema_line \<Rightarrow>
          (case (if truthy table_hints \<and> truthy (js_length table_hints)
                 then (case js_join table_hints '', '' of
                         Inl e \<Rightarrow> Inl e
                       | Inr s \<Rightarrow> Inr (''TABLE HINTS: '' @ s))
                 else Inr []) of
             Inl e \<Rightarrow> Inl e
           | Inr tables_line \<Rightarrow>
               Inr (join_with newline
                      (filter (\<lambda>s. s \<noteq> []) (rules @ [schema_line, tables_line])))))"

text \<open>Lines 94 to 112.\<close>

definition nl_payload :: "process_env \<Rightarrow> string \<Rightarrow> json \<Rightarrow> json" where
  "nl_payload env prompt text =
     JObj [(''model'', JStr (or_else (NL_SQL_MODEL env) ''gpt-4.1-mini'')),
           (''messages'',
              JArr [JObj [(''role'', JStr ''system''), (''content'', JStr prompt)],
                    JObj [(''role'', JStr ''user''), (''content'', text)]])]"

definition openai_request :: "process_env \<Rightarrow> json \<Rightarrow> http_request" where
  "openai_request env payload =
     \<lparr>req_url = ''https://api.openai.com/v1/chat/completions'',
      req_method = ''POST'',
      req_data = payload,
      req_headers = [(''Authorization'', ''Bearer '' @ or_else (OPENAI_API_KEY env) []),
                     (''Content-Type'', ''application/json'')],
      req_timeout = 30000\<rparr>"

text \<open>\<open>v?.trim()\<close>: undefined on null and undefined, the trimmed string on a string, and a
  TypeError on anything else, which has no callable trim.\<close>

fun opt_trim :: "json \<Rightarrow> exn + json" where
  "opt_trim JUndefined = Inr JUndefined"
| "opt_trim JNull = Inr JUndefined"
| "opt_trim (JStr s) = Inr (JStr (trim s))"
| "opt_trim v = Inl (TypeError (Not_a_function ''trim''))"

text \<open>Line 114: \<open>openaiResp.data.choices?.[0]?.message?.content?.trim()\<close>.\<close>

definition extract_sql :: "json \<Rightarrow> exn + json" where
  "extract_sql d =
     (case member d ''choices'' of
        Inl e \<Rightarrow> Inl e
      | Inr choices \<Rightarrow>
          opt_trim (opt_member (opt_member (opt_index0 choices) ''message'') ''content''))"

text \<open>The catch clause, lines 121 to 126.\<close>

definition nl_failed :: "world \<Rightarrow> exn \<Rightarrow> response" where
  "nl_failed w e =
     res_status_json 500
       (JObj [(''error'', JStr ''natural_language_to_sql failed''),
              (''details'', JStr (err_text w e))])"

definition natural_language_to_sql ::
  "process_env \<Rightarrow> world \<Rightarrow> json \<Rightarrow> event list \<times> response" where
  "natural_language_to_sql env w req_body =
     (let b = body_or_empty req_body;
          text = get_prop b ''text'';
          database_id = get_prop b ''database_id'';
          schema_hint = get_prop b ''schema_hint'';
          table_hints = get_prop b ''table_hints''
      in
      if \<not> truthy text \<or> \<not> truthy database_id
      then ([], res_status_json 400 (JObj [(''error'', JStr ''text and database_id are required'')]))
      else
        (case not_allowed (ALLOWED_DATABASES env) database_id of
           Inl e \<Rightarrow> ([], nl_failed w e)
         | Inr refused \<Rightarrow>
             if refused
             then ([], res_status_json 400 (JObj [(''error'', JStr ''database_id not allowed'')]))
             else if \<not> is_set (OPENAI_API_KEY env)
             then ([], res_status_json 500 (JObj [(''error'', JStr ''OPENAI_API_KEY not set on server'')]))
             else
               (case systemPrompt schema_hint table_hints of
                  Inl e \<Rightarrow> ([], nl_failed w e)
                | Inr prompt \<Rightarrow>
                    let req = openai_request env (nl_payload env prompt text) in
                    (case upstream w req of
                       Rejected m r \<Rightarrow> ([HttpRequest req], nl_failed w (AxiosError m r))
                     | Resolved d \<Rightarrow>
                         (case extract_sql d of
                            Inl e \<Rightarrow> ([HttpRequest req], nl_failed w e)
                          | Inr sql \<Rightarrow>
                              if \<not> truthy sql
                              then ([HttpRequest req],
                                    res_status_json 500 (JObj [(''error'', JStr ''No SQL generated'')]))
                              else ([HttpRequest req],
                                    res_json (JObj [(''sql'', sql), (''database_id'', database_id)])))))))"

section \<open>POST /create_question\<close>

text \<open>Lines 146 to 156.\<close>

definition card_payload :: "json \<Rightarrow> json \<Rightarrow> json \<Rightarrow> json" where
  "card_payload name sql database_id =
     JObj [(''name'', name),
           (''display'', JStr ''table''),
           (''dataset_query'',
              JObj [(''type'', JStr ''native''),
                    (''native'', JObj [(''query'', sql)]),
                    (''database'', database_id)])]"

text \<open>The argument of \<open>res.json\<close> on lines 160 to 164; \<open>card.id\<close> is read first and throws on
  a card that is null.\<close>

definition question_ref :: "json \<Rightarrow> exn + json" where
  "question_ref created =
     (case member created ''id'' of
        Inl e \<Rightarrow> Inl e
      | Inr card_id \<Rightarrow>
          (case (if truthy (get_prop created ''public_uuid'')
                 then map_option (\<lambda>s. ''/public/question/'' @ s) (to_string (get_prop created ''public_uuid''))
                 else map_option (\<lambda>s. ''/question/'' @ s) (to_string card_id)) of
             None \<Rightarrow> Inl (TypeError Cannot_convert_object)
           | Some url \<Rightarrow>
               Inr (JObj [(''question_id'', card_id),
                          (''name'', get_prop created ''name''),
                          (''url'', JStr url)])))"

text \<open>The catch clause, lines 165 to 170.\<close>

definition create_failed :: "world \<Rightarrow> exn \<Rightarrow> response" where
  "create_failed w e =
     res_status_json 500
       (JObj [(''error'', JStr ''create_question failed''), (''details'', err_details w e)])"

definition create_question ::
  "process_env \<Rightarrow> world \<Rightarrow> json \<Rightarrow> event list \<times> response" where
  "create_question env w req_body =
     (let b = body_or_empty req_body;
          name = get_prop b ''name'';
          sql = get_prop b ''sql'';
          database_id = get_prop b ''database_id''
      in
      if \<not> truthy name \<or> \<not> truthy sql \<or> \<not> truthy database_id
      then ([], res_status_json 400 (JObj [(''error'', JStr ''name, sql, database_id are required'')]))
      else
        (case not_allowed (ALLOWED_DATABASES env) database_id of
           Inl e \<Rightarrow> ([], create_failed w e)
         | Inr refused \<Rightarrow>
             if refused
             then ([], res_status_json 400 (JObj [(''error'', JStr ''database_id not allowed'')]))
             else
               (case callMetabase env w ''/api/card'' ''POST'' (card_payload name sql database_id) of
                  (evs, Inl e) \<Rightarrow> (evs, create_failed w e)
                | (evs, Inr created) \<Rightarrow>
                    (case question_ref created of
                       Inl e \<Rightarrow> (evs, create_failed w e)
                     | Inr ref \<Rightarrow> (evs, res_json ref)))))"

section \<open>POST /get_question_results\<close>

text \<open>\<open>v || []\<close>\<close>

definition or_empty_array :: "json \<Rightarrow> json" where
  "or_empty_array v = (if truthy v then v else JArr [])"

text \<open>The argument of \<open>res.json\<close> on lines 190 to 194.\<close>

definition result_set :: "json \<Rightarrow> json" where
  "result_set d =
     JObj [(''cols'', or_empty_array (opt_member (opt_member d ''data'') ''cols'')),
           (''rows'', or_empty_array (opt_member (opt_member d ''data'') ''rows'')),
           (''raw'', d)]"

text \<open>The catch clause, lines 195 to 200.\<close>

definition results_failed :: "world \<Rightarrow> exn \<Rightarrow> response" where
  "results_failed w e =
     res_status_json 500
       (JObj [(''error'', JStr ''get_question_results failed''), (''details'', err_details w e)])"

text \<open>The path is a template literal, so \<open>question_id\<close> is converted to a string before
  \<open>callMetabase\<close> is entered.\<close>

definition get_question_results ::
  "process_env \<Rightarrow> world \<Rightarrow> json \<Rightarrow> event list \<times> response" where
  "get_question_results env w req_body =
     (let b = body_or_empty req_body;
          question_id = get_prop b ''question_id''
      in
      if \<not> truthy question_id
      then ([], res_status_json 400 (JObj [(''error'', JStr ''question_id is required'')]))
      else
        (case to_string question_id of
           None \<Rightarrow> ([], results_failed w (TypeError Cannot_convert_object))
         | Some s \<Rightarrow>
             (case callMetabase env w (''/api/card/'' @ s @ ''/query'') ''POST''
                     (JObj [(''parameters'', JArr [])]) of
                (evs, Inl e) \<Rightarrow> (evs, results_failed w e)
              | (evs, Inr d) \<Rightarrow> (evs, res_json (result_set d)))))"

section \<open>Terms of the specification, and example inputs\<close>

text \<open>
  The specification's "first completion's message text content" of a language-model
  payload: what the chain \<open>choices[0].message.content\<close> finds, undefined where a link is
  missing.
\<close>

definition first_completion_content :: "json \<Rightarrow> json" where
  "first_completion_content d =
     opt_member (opt_member (opt_index0 (opt_member d ''choices'')) ''message'') ''content''"

definition example_env :: process_env where
  "example_env =
     \<lparr>METABASE_URL = Some ''https://metabase.example.com/'',
      METABASE_API_KEY = Some ''mb-key'',
      OPENAI_API_KEY = Some ''sk-key'',
      ALLOWED_DATABASES_var = Some ''2'',
      NL_SQL_MODEL = None\<rparr>"

text \<open>A world whose upstreams give every request the same result.\<close>

definition answering :: "upstream_result \<Rightarrow> world" where
  "answering r = \<lparr>upstream = (\<lambda>q. r), engine_text = (\<lambda>t. ''TypeError'')\<rparr>"

section \<open>The stages of the handlers\<close>

text \<open>
  The specification's words "missing", "present", "absent" and "exposes" stand for the
  tests the source makes with \<open>!v\<close>, \<open>v || d\<close> and \<open>v ? a : b\<close>: a value counts as
  there when it is truthy. The theorems below are stated with \<open>truthy\<close>.
\<close>

lemma get_prop_body_or_empty: "get_prop (body_or_empty b) k = get_prop b k"
  by (cases b) (simp_all add: body_or_empty_def)

lemma denies_iff:
  "denies allowed c \<longleftrightarrow> allowed \<noteq> [] \<and> (\<exists>s. to_string c = Some s \<and> s \<notin> set allowed)"
  by (auto simp add: denies_def not_allowed_def split: option.splits)

lemma permits_iff:
  "permits allowed c \<longleftrightarrow> allowed = [] \<or> (\<exists>s. to_string c = Some s \<and> s \<in> set allowed)"
  by (auto simp add: permits_def not_allowed_def split: option.splits)

lemma nl_missing:
  "\<not> truthy (get_prop b ''text'') \<or> \<not> truthy (get_prop b ''database_id'') \<Longrightarrow>
   natural_language_to_sql env w b =
     ([], res_status_json 400 (JObj [(''error'', JStr ''text and database_id are required'')]))"
  by (auto simp add: natural_language_to_sql_def get_prop_body_or_empty Let_def)

lemma nl_checked:
  "truthy (get_prop b ''text'') \<Longrightarrow> truthy (get_prop b ''database_id'') \<Longrightarrow>
   natural_language_to_sql env w b =
     (case not_allowed (ALLOWED_DATABASES env) (get_prop b ''database_id'') of
        Inl e \<Rightarrow> ([], nl_failed w e)
      | Inr refused \<Rightarrow>
          if refused
          then ([], res_status_json 400 (JObj [(''error'', JStr ''database_id not allowed'')]))
          else if \<not> is_set (OPENAI_API_KEY env)
          then ([], res_status_json 500 (JObj [(''error'', JStr ''OPENAI_API_KEY not set on server'')]))
          else
            (case systemPrompt (get_prop b ''schema_hint'') (get_prop b ''table_hints'') of
               Inl e \<Rightarrow> ([], nl_failed w e)
             | Inr prompt \<Rightarrow>
                 (case upstream w (openai_request env (nl_payload env prompt (get_prop b ''text''))) of
                    Rejected m r \<Rightarrow>
                      ([HttpRequest (openai_request env (nl_payload env prompt (get_prop b ''text'')))],
                       nl_failed w (AxiosError m r))
                  | Resolved d \<Rightarrow>
                      ([HttpRequest (openai_request env (nl_payload env prompt (get_prop b ''text'')))],
                       (case extract_sql d of
                          Inl e \<Rightarrow> nl_failed w e
                        | Inr sql \<Rightarrow>
                            if \<not> truthy sql
                            then res_status_json 500 (JObj [(''error'', JStr ''No SQL generated'')])
                            else res_json (JObj [(''sql'', sql),
                                                 (''database_id'', get_prop b ''database_id'')]))))))"
  by (simp add: natural_language_to_sql_def get_prop_body_or_empty Let_def
      split: sum.splits upstream_result.splits)

lemma nl_failed_status: "res_status (nl_failed w e) = 500"
  by (simp add: nl_failed_def res_status_json_def)

lemma create_missing:
  "\<not> truthy (get_prop b ''name'') \<or> \<not> truthy (get_prop b ''sql'') \<or>
   \<not> truthy (get_prop b ''database_id'') \<Longrightarrow>
   create_question env w b =
     ([], res_status_json 400 (JObj [(''error'', JStr ''name, sql, database_id are required'')]))"
  by (auto simp add: create_question_def get_prop_body_or_empty Let_def)

lemma create_checked:
  "truthy (get_prop b ''name'') \<Longrightarrow> truthy (get_prop b ''sql'') \<Longrightarrow>
   truthy (get_prop b ''database_id'') \<Longrightarrow>
   create_question env w b =
     (case not_allowed (ALLOWED_DATABASES env) (get_prop b ''database_id'') of
        Inl e \<Rightarrow> ([], create_failed w e)
      | Inr refused \<Rightarrow>
          if refused
          then ([], res_status_json 400 (JObj [(''error'', JStr ''database_id not allowed'')]))
          else
            (fst (callMetabase env w ''/api/card'' ''POST''
                    (card_payload (get_prop b ''name'') (get_prop b ''sql'') (get_prop b ''database_id''))),
             (case snd (callMetabase env w ''/api/card'' ''POST''
                    (card_payload (get_prop b ''name'') (get_prop b ''sql'') (get_prop b ''database_id''))) of
                Inl e \<Rightarrow> create_failed w e
              | Inr created \<Rightarrow>
                  (case question_ref created of
                     Inl e \<Rightarrow> create_failed w e
                   | Inr ref \<Rightarrow> res_json ref))))"
  by (simp add: create_question_def get_prop_body_or_empty Let_def
      split: sum.splits prod.splits)

lemma results_missing:
  "\<not> truthy (get_prop b ''question_id'') \<Longrightarrow>
   get_question_results env w b =
     ([], res_status_json 400 (JObj [(''error'', JStr ''question_id is required'')]))"
  by (simp add: get_question_results_def get_prop_body_or_empty Let_def)

lemma results_checked:
  "truthy (get_prop b ''question_id'') \<Longrightarrow> to_string (get_prop b ''question_id'') = Some s \<Longrightarrow>
   get_question_results env w b =
     (fst (callMetabase env w (''/api/card/'' @ s @ ''/query'') ''POST'' (JObj [(''parameters'', JArr [])])),
      (case snd (callMetabase env w (''/api/card/'' @ s @ ''/query'') ''POST''
                   (JObj [(''parameters'', JArr [])])) of
         Inl e \<Rightarrow> results_failed w e
       | Inr d \<Rightarrow> res_json (result_set d)))"
  by (simp add: get_question_results_def get_prop_body_or_empty Let_def
      split: sum.splits prod.splits)

lemma callMetabase_events:
  "fst (callMetabase env w p m d) =
     MetabaseCall p m d #
       (if metabase_configured env then [HttpRequest (metabase_request env p m d)] else [])"
  by (simp add: callMetabase_def metabase_configured_def Let_def)

lemma callMetabase_result:
  "snd (callMetabase env w p m d) =
     (if metabase_configured env
      then (case upstream w (metabase_request env p m d) of
              Resolved x \<Rightarrow> Inr x
            | Rejected msg r \<Rightarrow> Inl (AxiosError msg r))
      else Inl not_configured)"
  by (simp add: callMetabase_def metabase_configured_def Let_def)

lemma callMetabase_allow_list:
  "callMetabase (env\<lparr>ALLOWED_DATABASES_var := a\<rparr>) w p m d = callMetabase env w p m d"
  by (simp add: callMetabase_def metabase_request_def Let_def)

lemma allowed_unset: "\<not> is_set (ALLOWED_DATABASES_var env) \<Longrightarrow> ALLOWED_DATABASES env = []"
  by (auto simp add: ALLOWED_DATABASES_def is_set_def or_else_def trim_def split: option.splits)

lemma example_allowed: "ALLOWED_DATABASES example_env = [''2'']"
  by (simp add: ALLOWED_DATABASES_def example_env_def or_else_def trim_def is_space_def)

lemma to_string_2: "to_string (JNum 2) = Some ''2''"
  by (simp add: string_of_int_def digit_char_def)

lemma to_string_3: "to_string (JNum 3) = Some ''3''"
  by (simp add: string_of_int_def digit_char_def)

lemma create_failed_status: "res_status (create_failed w e) = 500"
  by (simp add: create_failed_def res_status_json_def)

lemma results_failed_status: "res_status (results_failed w e) = 500"
  by (simp add: results_failed_def res_status_json_def)

lemma question_ref_shape:
  assumes "question_ref created = Inr r"
  shows "\<exists>u. to_string (if truthy (get_prop created ''public_uuid'')
                        then get_prop created ''public_uuid'' else get_prop created ''id'') = Some u \<and>
             r = JObj [(''question_id'', get_prop created ''id''),
                       (''name'', get_prop created ''name''),
                       (''url'', JStr ((if truthy (get_prop created ''public_uuid'')
                                        then ''/public/question/'' else ''/question/'') @ u))]"
  using assms
  by (auto simp add: question_ref_def member_def split: if_splits option.splits)

lemma create_success:
  assumes "res_status (snd (create_question env w b)) = 200"
  shows "\<exists>created r.
           metabase_configured env \<and>
           upstream w (metabase_request env ''/api/card'' ''POST''
             (card_payload (get_prop b ''name'') (get_prop b ''sql'') (get_prop b ''database_id''))) =
             Resolved created \<and>
           question_ref created = Inr r \<and>
           snd (create_question env w b) = res_json r"
proof -
  have t: "truthy (get_prop b ''name'') \<and> truthy (get_prop b ''sql'') \<and> truthy (get_prop b ''database_id'')"
  proof (rule ccontr)
    assume "\<not> ?thesis"
    then have "\<not> truthy (get_prop b ''name'') \<or> \<not> truthy (get_prop b ''sql'') \<or>
      \<not> truthy (get_prop b ''database_id'')" by simp
    from create_missing [OF this, of env w] assms show False
      by (simp add: res_status_json_def)
  qed
  then have eq: "create_question env w b =
     (case not_allowed (ALLOWED_DATABASES env) (get_prop b ''database_id'') of
        Inl e \<Rightarrow> ([], create_failed w e)
      | Inr refused \<Rightarrow>
          if refused
          then ([], res_status_json 400 (JObj [(''error'', JStr ''database_id not allowed'')]))
          else
            (fst (callMetabase env w ''/api/card'' ''POST''
                    (card_payload (get_prop b ''name'') (get_prop b ''sql'') (get_prop b ''database_id''))),
             (case snd (callMetabase env w ''/api/card'' ''POST''
                    (card_payload (get_prop b ''name'') (get_prop b ''sql'') (get_prop b ''database_id''))) of
                Inl e \<Rightarrow> create_failed w e
              | Inr created \<Rightarrow>
                  (case question_ref created of
                     Inl e \<Rightarrow> create_failed w e
                   | Inr ref \<Rightarrow> res_json ref))))"
    by (simp add: create_checked)
  from assms show ?thesis
    unfolding eq
    by (auto simp add: create_failed_status res_status_json_def callMetabase_result
        split: sum.splits if_splits upstream_result.splits)
qed

lemma opt_member_get_prop: "opt_member v k = get_prop v k"
  by (cases v) (simp_all add: opt_member_def nullish_def)

lemma result_set_shape:
  "result_set d =
     JObj [(''cols'', if truthy (get_prop (get_prop d ''data'') ''cols'')
                      then get_prop (get_prop d ''data'') ''cols'' else JArr []),
           (''rows'', if truthy (get_prop (get_prop d ''data'') ''rows'')
                      then get_prop (get_prop d ''data'') ''rows'' else JArr []),
           (''raw'', d)]"
  by (simp add: result_set_def or_empty_array_def opt_member_get_prop)

lemma extract_sql_nullish: "nullish d \<Longrightarrow> \<exists>e. extract_sql d = Inl e"
  by (simp add: extract_sql_def member_def)

lemma extract_sql_content:
  "\<not> nullish d \<Longrightarrow> extract_sql d = opt_trim (first_completion_content d)"
  by (simp add: extract_sql_def member_def first_completion_content_def opt_member_def)

lemma first_completion_content_nullish: "nullish d \<Longrightarrow> first_completion_content d = JUndefined"
  by (simp add: first_completion_content_def opt_member_def nullish_def)

lemma opt_trim_cases:
  "opt_trim v =
     (if nullish v then Inr JUndefined
      else (case v of JStr s \<Rightarrow> Inr (JStr (trim s)) | _ \<Rightarrow> Inl (TypeError (Not_a_function ''trim''))))"
  by (cases v) (simp_all add: nullish_def)

lemma nl_reached:
  assumes "truthy (get_prop b ''text'')" and "truthy (get_prop b ''database_id'')"
    and "permits (ALLOWED_DATABASES env) (get_prop b ''database_id'')"
    and "is_set (OPENAI_API_KEY env)"
    and "systemPrompt (get_prop b ''schema_hint'') (get_prop b ''table_hints'') = Inr prompt"
    and "upstream w (openai_request env (nl_payload env prompt (get_prop b ''text''))) = Resolved d"
  shows "natural_language_to_sql env w b =
     ([HttpRequest (openai_request env (nl_payload env prompt (get_prop b ''text'')))],
      (case extract_sql d of
         Inl e \<Rightarrow> nl_failed w e
       | Inr sql \<Rightarrow>
           if \<not> truthy sql
           then res_status_json 500 (JObj [(''error'', JStr ''No SQL generated'')])
           else res_json (JObj [(''sql'', sql), (''database_id'', get_prop b ''database_id'')])))"
  using assms by (simp add: nl_checked permits_def)

lemma systemPrompt_no_hints:
  "systemPrompt JUndefined JUndefined = Inr (join_with newline (filter (\<lambda>s. s \<noteq> []) rules))"
  by (simp add: systemPrompt_def)

lemma to_string_123: "to_string (JNum 123) = Some ''123''"
  by (simp add: string_of_int_def digit_char_def)

lemma to_string_7: "to_string (JNum 7) = Some ''7''"
  by (simp add: string_of_int_def digit_char_def)

lemma example_configured: "metabase_configured example_env"
  by (simp add: metabase_configured_def example_env_def is_set_def)

lemma example_url: "strip_trailing_slash (or_else (METABASE_URL example_env) []) = ''https://metabase.example.com''"
  by (simp add: strip_trailing_slash_def or_else_def example_env_def)

lemma example_key: "or_else (METABASE_API_KEY example_env) [] = ''mb-key''"
  by (simp add: or_else_def example_env_def)

lemma example_permits_2: "permits (ALLOWED_DATABASES example_env) (JNum 2)"
  by (simp add: example_allowed permits_iff to_string_2 del: to_string.simps)

section \<open>The allow-list filter\<close>

text \<open>
  C1. The allow-list filter permits every candidate when the configured list is empty (as
  it is when the variable is unset or empty); when the list is not empty it permits a
  candidate exactly when the candidate's string form (\<open>String(database_id)\<close>) is an
  element of the list, strings compared for equality. A candidate with no string form is
  in no list, and is not permitted by a list that is not empty.
\<close>

theorem allow_list_filter:
  "permits [] c \<and>
   (allowed \<noteq> [] \<longrightarrow> (permits allowed c \<longleftrightarrow> (\<exists>s. to_string c = Some s \<and> s \<in> set allowed))) \<and>
   (\<not> is_set (ALLOWED_DATABASES_var env) \<longrightarrow> permits (ALLOWED_DATABASES env) c)"
  by (auto simp add: permits_def not_allowed_def allowed_unset split: option.splits)

theorem allow_list_filter_witness:
  "permits [] (JNum 3) \<and> permits [''2''] (JNum 2) \<and> \<not> permits [''2''] (JNum 3) \<and>
   permits [''2''] (JStr ''2'') \<and>
   permits (ALLOWED_DATABASES (example_env\<lparr>ALLOWED_DATABASES_var := None\<rparr>)) (JNum 3)"
  using allow_list_filter [of "JNum 3" "[]" "example_env\<lparr>ALLOWED_DATABASES_var := None\<rparr>"]
    allow_list_filter [of "JNum 2" "[''2'']"]
    allow_list_filter [of "JNum 3" "[''2'']"] allow_list_filter [of "JStr ''2''" "[''2'']"]
  by (simp add: string_of_int_def digit_char_def is_set_def)

section \<open>Validation order of the translate endpoint\<close>

text \<open>
  C2. POST /natural_language_to_sql validates in this order, stopping at the first
  failure: (1) text or database_id missing (falsy, which an absent field is): 400 with
  error "text and database_id are required"; (2) otherwise, the allow-list filter denies
  database_id: 400 with error "database_id not allowed"; (3) otherwise, the language-model
  key not set: 500 (with error "OPENAI_API_KEY not set on server" when the filter
  permits). In each of these cases the handler makes no outbound call at all.
\<close>

theorem nl_validation_order:
  "(\<not> truthy (get_prop b ''text'') \<or> \<not> truthy (get_prop b ''database_id'') \<longrightarrow>
      natural_language_to_sql env w b =
        ([], \<lparr>res_status = 400,
              res_body = JObj [(''error'', JStr ''text and database_id are required'')]\<rparr>)) \<and>
   (truthy (get_prop b ''text'') \<and> truthy (get_prop b ''database_id'') \<and>
    denies (ALLOWED_DATABASES env) (get_prop b ''database_id'') \<longrightarrow>
      natural_language_to_sql env w b =
        ([], \<lparr>res_status = 400, res_body = JObj [(''error'', JStr ''database_id not allowed'')]\<rparr>)) \<and>
   (truthy (get_prop b ''text'') \<and> truthy (get_prop b ''database_id'') \<and>
    \<not> denies (ALLOWED_DATABASES env) (get_prop b ''database_id'') \<and>
    \<not> is_set (OPENAI_API_KEY env) \<longrightarrow>
      fst (natural_language_to_sql env w b) = [] \<and>
      res_status (snd (natural_language_to_sql env w b)) = 500) \<and>
   (truthy (get_prop b ''text'') \<and> truthy (get_prop b ''database_id'') \<and>
    permits (ALLOWED_DATABASES env) (get_prop b ''database_id'') \<and>
    \<not> is_set (OPENAI_API_KEY env) \<longrightarrow>
      natural_language_to_sql env w b =
        ([], \<lparr>res_status = 500,
              res_body = JObj [(''error'', JStr ''OPENAI_API_KEY not set on server'')]\<rparr>))"
proof (intro conjI impI)
  assume "\<not> truthy (get_prop b ''text'') \<or> \<not> truthy (get_prop b ''database_id'')"
  then show "natural_language_to_sql env w b =
        ([], \<lparr>res_status = 400,
              res_body = JObj [(''error'', JStr ''text and database_id are required'')]\<rparr>)"
    by (simp add: nl_missing res_status_json_def)
next
  assume "truthy (get_prop b ''text'') \<and> truthy (get_prop b ''database_id'') \<and>
    denies (ALLOWED_DATABASES env) (get_prop b ''database_id'')"
  then show "natural_language_to_sql env w b =
        ([], \<lparr>res_status = 400, res_body = JObj [(''error'', JStr ''database_id not allowed'')]\<rparr>)"
    by (simp add: nl_checked denies_def res_status_json_def)
next
  assume a: "truthy (get_prop b ''text'') \<and> truthy (get_prop b ''database_id'') \<and>
    \<not> denies (ALLOWED_DATABASES env) (get_prop b ''database_id'') \<and>
    \<not> is_set (OPENAI_API_KEY env)"
  then show "fst (natural_language_to_sql env w b) = []"
    by (simp add: nl_checked denies_def split: sum.splits)
  from a show "res_status (snd (natural_language_to_sql env w b)) = 500"
    by (simp add: nl_checked denies_def nl_failed_status res_status_json_def split: sum.splits)
next
  assume "truthy (get_prop b ''text'') \<and> truthy (get_prop b ''database_id'') \<and>
    permits (ALLOWED_DATABASES env) (get_prop b ''database_id'') \<and>
    \<not> is_set (OPENAI_API_KEY env)"
  then show "natural_language_to_sql env w b =
        ([], \<lparr>res_status = 500,
              res_body = JObj [(''error'', JStr ''OPENAI_API_KEY not set on server'')]\<rparr>)"
    by (simp add: nl_checked permits_def res_status_json_def)
qed

theorem nl_validation_order_witness:
  "natural_language_to_sql example_env (answering (Rejected [] None)) (JObj [(''database_id'', JNum 2)]) =
     ([], \<lparr>res_status = 400,
           res_body = JObj [(''error'', JStr ''text and database_id are required'')]\<rparr>) \<and>
   natural_language_to_sql example_env (answering (Rejected [] None))
       (JObj [(''text'', JStr ''total sales''), (''database_id'', JNum 3)]) =
     ([], \<lparr>res_status = 400, res_body = JObj [(''error'', JStr ''database_id not allowed'')]\<rparr>) \<and>
   natural_language_to_sql (example_env\<lparr>OPENAI_API_KEY := None\<rparr>) (answering (Rejected [] None))
       (JObj [(''text'', JStr ''total sales''), (''database_id'', JNum 2)]) =
     ([], \<lparr>res_status = 500,
           res_body = JObj [(''error'', JStr ''OPENAI_API_KEY not set on server'')]\<rparr>)"
proof -
  have allowed: "ALLOWED_DATABASES (example_env\<lparr>OPENAI_API_KEY := None\<rparr>) = [''2'']"
    by (simp add: ALLOWED_DATABASES_def example_env_def or_else_def trim_def is_space_def)
  have d3: "denies [''2''] (JNum 3)"
    by (simp add: denies_iff to_string_3 del: to_string.simps)
  have p2: "permits [''2''] (JNum 2)"
    by (simp add: permits_iff to_string_2 del: to_string.simps)
  show ?thesis
    using nl_validation_order [of "JObj [(''database_id'', JNum 2)]" example_env
        "answering (Rejected [] None)"]
      nl_validation_order [of "JObj [(''text'', JStr ''total sales''), (''database_id'', JNum 3)]"
        example_env "answering (Rejected [] None)"]
      nl_validation_order [of "JObj [(''text'', JStr ''total sales''), (''database_id'', JNum 2)]"
        "example_env\<lparr>OPENAI_API_KEY := None\<rparr>" "answering (Rejected [] None)"]
    by (simp add: example_allowed allowed d3 p2 is_set_def)
qed

section \<open>The payload of a created question\<close>

text \<open>
  C3. A request to POST /create_question that passes validation (name, sql and database_id
  there, database_id permitted) calls the analytics upstream once, at /api/card with POST,
  and the payload of the call has query type "native" and display "table", holds the
  caller's sql unchanged as the native query and the caller's database_id as the database.
  The same payload is the data of the request sent when the platform is configured.
\<close>

theorem create_question_payload:
  assumes "truthy (get_prop b ''name'')" and "truthy (get_prop b ''sql'')"
    and "truthy (get_prop b ''database_id'')"
    and "permits (ALLOWED_DATABASES env) (get_prop b ''database_id'')"
  shows "(let payload =
            JObj [(''name'', get_prop b ''name''),
                  (''display'', JStr ''table''),
                  (''dataset_query'',
                     JObj [(''type'', JStr ''native''),
                           (''native'', JObj [(''query'', get_prop b ''sql'')]),
                           (''database'', get_prop b ''database_id'')])]
          in fst (create_question env w b) =
               MetabaseCall ''/api/card'' ''POST'' payload #
                 (if metabase_configured env
                  then [HttpRequest
                          \<lparr>req_url = strip_trailing_slash (or_else (METABASE_URL env) []) @ ''/api/card'',
                           req_method = ''POST'',
                           req_data = payload,
                           req_headers = [(''Content-Type'', ''application/json''),
                                          (''X-Metabase-Session'', or_else (METABASE_API_KEY env) [])],
                           req_timeout = 30000\<rparr>]
                  else []))"
  using assms
  by (simp add: create_checked permits_def callMetabase_events metabase_request_def
      card_payload_def Let_def)

theorem create_question_payload_witness:
  "fst (create_question example_env (answering (Resolved JNull))
          (JObj [(''name'', JStr ''Q1''), (''sql'', JStr ''SELECT 1''), (''database_id'', JNum 2)])) =
     [MetabaseCall ''/api/card'' ''POST''
        (JObj [(''name'', JStr ''Q1''),
               (''display'', JStr ''table''),
               (''dataset_query'',
                  JObj [(''type'', JStr ''native''),
                        (''native'', JObj [(''query'', JStr ''SELECT 1'')]),
                        (''database'', JNum 2)])]),
      HttpRequest
        \<lparr>req_url = ''https://metabase.example.com/api/card'',
         req_method = ''POST'',
         req_data =
           JObj [(''name'', JStr ''Q1''),
                 (''display'', JStr ''table''),
                 (''dataset_query'',
                    JObj [(''type'', JStr ''native''),
                          (''native'', JObj [(''query'', JStr ''SELECT 1'')]),
                          (''database'', JNum 2)])],
         req_headers = [(''Content-Type'', ''application/json''), (''X-Metabase-Session'', ''mb-key'')],
         req_timeout = 30000\<rparr>]"
proof -
  have p2: "permits (ALLOWED_DATABASES example_env) (JNum 2)"
    by (simp add: example_allowed permits_iff to_string_2 del: to_string.simps)
  have conf: "metabase_configured example_env"
    by (simp add: metabase_configured_def example_env_def is_set_def)
  have url: "strip_trailing_slash (or_else (METABASE_URL example_env) []) = ''https://metabase.example.com''"
    by (simp add: strip_trailing_slash_def or_else_def example_env_def)
  have key: "or_else (METABASE_API_KEY example_env) [] = ''mb-key''"
    by (simp add: or_else_def example_env_def)
  show ?thesis
    using create_question_payload [of "JObj [(''name'', JStr ''Q1''), (''sql'', JStr ''SELECT 1''), (''database_id'', JNum 2)]"
        example_env "answering (Resolved JNull)"] p2
    by (simp add: conf url key Let_def)
qed

section \<open>Fetching results\<close>

text \<open>
  C4, as far as the source goes. A request to POST /get_question_results whose question_id
  passes the required-field test (is truthy) and has a string form s makes exactly one
  query-execution call, against /api/card/s/query with POST and the empty parameter list;
  the call reaches the network when the platform is configured. When the upstream resolves
  with a payload, the answer is 200 with cols and rows the payload's data.cols and
  data.rows where these are truthy, the empty array where they are absent or otherwise
  falsy (null, false, 0, the empty string), and raw the payload itself.
\<close>

theorem get_question_results_call_and_shape:
  assumes "truthy (get_prop b ''question_id'')"
    and "to_string (get_prop b ''question_id'') = Some s"
  shows "fst (get_question_results env w b) =
           MetabaseCall (''/api/card/'' @ s @ ''/query'') ''POST'' (JObj [(''parameters'', JArr [])]) #
             (if metabase_configured env
              then [HttpRequest
                      \<lparr>req_url = strip_trailing_slash (or_else (METABASE_URL env) []) @
                                   ''/api/card/'' @ s @ ''/query'',
                       req_method = ''POST'',
                       req_data = JObj [(''parameters'', JArr [])],
                       req_headers = [(''Content-Type'', ''application/json''),
                                      (''X-Metabase-Session'', or_else (METABASE_API_KEY env) [])],
                       req_timeout = 30000\<rparr>]
              else []) \<and>
         (\<forall>d. metabase_configured env \<and>
              upstream w
                \<lparr>req_url = strip_trailing_slash (or_else (METABASE_URL env) []) @
                             ''/api/card/'' @ s @ ''/query'',
                 req_method = ''POST'',
                 req_data = JObj [(''parameters'', JArr [])],
                 req_headers = [(''Content-Type'', ''application/json''),
                                (''X-Metabase-Session'', or_else (METABASE_API_KEY env) [])],
                 req_timeout = 30000\<rparr> = Resolved d \<longrightarrow>
              snd (get_question_results env w b) =
                \<lparr>res_status = 200,
                 res_body =
                   JObj [(''cols'', if truthy (get_prop (get_prop d ''data'') ''cols'')
                                    then get_prop (get_prop d ''data'') ''cols'' else JArr []),
                         (''rows'', if truthy (get_prop (get_prop d ''data'') ''rows'')
                                    then get_prop (get_prop d ''data'') ''rows'' else JArr []),
                         (''raw'', d)]\<rparr>)"
  using assms
  by (simp add: results_checked callMetabase_events callMetabase_result result_set_shape
      res_json_def metabase_request_def)

theorem get_question_results_call_and_shape_witness:
  "get_question_results example_env (answering (Resolved (JObj [(''status'', JStr ''completed'')])))
       (JObj [(''question_id'', JNum 123)]) =
     ([MetabaseCall ''/api/card/123/query'' ''POST'' (JObj [(''parameters'', JArr [])]),
       HttpRequest
         \<lparr>req_url = ''https://metabase.example.com/api/card/123/query'',
          req_method = ''POST'',
          req_data = JObj [(''parameters'', JArr [])],
          req_headers = [(''Content-Type'', ''application/json''), (''X-Metabase-Session'', ''mb-key'')],
          req_timeout = 30000\<rparr>],
      \<lparr>res_status = 200,
       res_body = JObj [(''cols'', JArr []), (''rows'', JArr []),
                        (''raw'', JObj [(''status'', JStr ''completed'')])]\<rparr>) \<and>
   snd (get_question_results example_env
          (answering (Resolved
             (JObj [(''data'',
                      JObj [(''cols'', JArr [JObj [(''name'', JStr ''total'')]]),
                            (''rows'', JArr [JArr [JNum 42], JArr [JNum 7]])]),
                    (''status'', JStr ''completed'')])))
          (JObj [(''question_id'', JNum 123)])) =
     \<lparr>res_status = 200,
      res_body =
        JObj [(''cols'', JArr [JObj [(''name'', JStr ''total'')]]),
              (''rows'', JArr [JArr [JNum 42], JArr [JNum 7]]),
              (''raw'',
                 JObj [(''data'',
                          JObj [(''cols'', JArr [JObj [(''name'', JStr ''total'')]]),
                                (''rows'', JArr [JArr [JNum 42], JArr [JNum 7]])]),
                       (''status'', JStr ''completed'')])]\<rparr>"
proof -
  let ?b = "JObj [(''question_id'', JNum 123)]"
  let ?d1 = "JObj [(''status'', JStr ''completed'')]"
  let ?d2 = "JObj [(''data'',
                      JObj [(''cols'', JArr [JObj [(''name'', JStr ''total'')]]),
                            (''rows'', JArr [JArr [JNum 42], JArr [JNum 7]])]),
                    (''status'', JStr ''completed'')]"
  have t: "truthy (get_prop ?b ''question_id'')"
    by simp
  have s: "to_string (get_prop ?b ''question_id'') = Some ''123''"
    by (simp add: to_string_123 del: to_string.simps)
  from get_question_results_call_and_shape [OF t s, of example_env "answering (Resolved ?d1)"]
    get_question_results_call_and_shape [OF t s, of example_env "answering (Resolved ?d2)"]
  show ?thesis
    by (simp add: prod_eq_iff example_configured example_url example_key answering_def)
qed

text \<open>
  The claim as it is written fails in two places. A question_id that is in the body but
  has no string form, an object with a property of its own named toString, makes the
  template literal throw: no call is made and the answer is 500. And a data.rows that is
  in the payload but falsy is not passed on: the answer carries the empty array.
\<close>

theorem get_question_results_counterexample:
  "fst (get_question_results example_env (answering (Resolved (JObj [])))
          (JObj [(''question_id'', JObj [(''toString'', JStr ''x'')])])) = [] \<and>
   res_status (snd (get_question_results example_env (answering (Resolved (JObj [])))
          (JObj [(''question_id'', JObj [(''toString'', JStr ''x'')])]))) = 500 \<and>
   snd (get_question_results example_env
          (answering (Resolved
             (JObj [(''data'', JObj [(''cols'', JArr [JStr ''total'']), (''rows'', JBool False)])])))
          (JObj [(''question_id'', JNum 123)])) =
     \<lparr>res_status = 200,
      res_body =
        JObj [(''cols'', JArr [JStr ''total'']),
              (''rows'', JArr []),
              (''raw'',
                 JObj [(''data'',
                          JObj [(''cols'', JArr [JStr ''total'']), (''rows'', JBool False)])])]\<rparr>"
proof -
  have "get_question_results example_env (answering (Resolved (JObj [])))
          (JObj [(''question_id'', JObj [(''toString'', JStr ''x'')])]) =
        ([], results_failed (answering (Resolved (JObj []))) (TypeError Cannot_convert_object))"
    by (simp add: get_question_results_def body_or_empty_def)
  moreover have "snd (get_question_results example_env
          (answering (Resolved
             (JObj [(''data'', JObj [(''cols'', JArr [JStr ''total'']), (''rows'', JBool False)])])))
          (JObj [(''question_id'', JNum 123)])) =
     \<lparr>res_status = 200,
      res_body =
        JObj [(''cols'', JArr [JStr ''total'']),
              (''rows'', JArr []),
              (''raw'',
                 JObj [(''data'',
                          JObj [(''cols'', JArr [JStr ''total'']), (''rows'', JBool False)])])]\<rparr>"
    by (simp add: results_checked [where s = "''123''"] to_string_123 callMetabase_result
        example_configured answering_def result_set_def or_empty_array_def opt_member_def
        nullish_def res_json_def del: to_string.simps)
  ultimately show ?thesis
    by (simp add: results_failed_status)
qed

section \<open>Extracting the generated SQL\<close>

text \<open>
  C5. When the language model answers the translate endpoint's request with a payload:
  if the first completion's message content is a string that is not empty after trimming,
  the answer is 200 with sql the trimmed string and database_id the caller's own; if the
  payload has no first completion, no content, or content empty after trimming, the answer
  is 500 with error "No SQL generated"; and whenever there is no such text, also for a
  payload that is null or a content that is not a string, the answer is 500 and carries no
  sql.
\<close>

theorem nl_sql_extraction:
  assumes "truthy (get_prop b ''text'')" and "truthy (get_prop b ''database_id'')"
    and "permits (ALLOWED_DATABASES env) (get_prop b ''database_id'')"
    and "is_set (OPENAI_API_KEY env)"
    and "systemPrompt (get_prop b ''schema_hint'') (get_prop b ''table_hints'') = Inr prompt"
    and "upstream w (openai_request env (nl_payload env prompt (get_prop b ''text''))) = Resolved d"
  shows "(\<forall>s. first_completion_content d = JStr s \<and> trim s \<noteq> [] \<longrightarrow>
            snd (natural_language_to_sql env w b) =
              \<lparr>res_status = 200,
               res_body = JObj [(''sql'', JStr (trim s)),
                                (''database_id'', get_prop b ''database_id'')]\<rparr>) \<and>
         (\<not> nullish d \<and>
          (nullish (first_completion_content d) \<or>
           (\<exists>s. first_completion_content d = JStr s \<and> trim s = [])) \<longrightarrow>
            snd (natural_language_to_sql env w b) =
              \<lparr>res_status = 500, res_body = JObj [(''error'', JStr ''No SQL generated'')]\<rparr>) \<and>
         ((\<forall>s. first_completion_content d = JStr s \<longrightarrow> trim s = []) \<longrightarrow>
            res_status (snd (natural_language_to_sql env w b)) = 500 \<and>
            get_prop (res_body (snd (natural_language_to_sql env w b))) ''sql'' = JUndefined)"
proof (intro conjI allI impI)
  note r = nl_reached [OF assms]
  {
    fix s
    assume a: "first_completion_content d = JStr s \<and> trim s \<noteq> []"
    then have "\<not> nullish d"
      using first_completion_content_nullish [of d] by auto
    with a show "snd (natural_language_to_sql env w b) =
              \<lparr>res_status = 200,
               res_body = JObj [(''sql'', JStr (trim s)),
                                (''database_id'', get_prop b ''database_id'')]\<rparr>"
      by (simp add: r extract_sql_content res_json_def)
  }
  {
    assume a: "\<not> nullish d \<and>
          (nullish (first_completion_content d) \<or>
           (\<exists>s. first_completion_content d = JStr s \<and> trim s = []))"
    then show "snd (natural_language_to_sql env w b) =
              \<lparr>res_status = 500, res_body = JObj [(''error'', JStr ''No SQL generated'')]\<rparr>"
      by (auto simp add: r extract_sql_content opt_trim_cases res_status_json_def)
  }
  {
    assume a: "\<forall>s. first_completion_content d = JStr s \<longrightarrow> trim s = []"
    have "res_status (snd (natural_language_to_sql env w b)) = 500 \<and>
            get_prop (res_body (snd (natural_language_to_sql env w b))) ''sql'' = JUndefined"
    proof (cases "nullish d")
      case True
      from extract_sql_nullish [OF True] obtain e where "extract_sql d = Inl e" by blast
      then show ?thesis
        by (simp add: r nl_failed_def res_status_json_def)
    next
      case False
      with a show ?thesis
        by (cases "first_completion_content d")
          (simp_all add: r extract_sql_content nl_failed_def res_status_json_def)
    qed
    then show "res_status (snd (natural_language_to_sql env w b)) = 500"
      and "get_prop (res_body (snd (natural_language_to_sql env w b))) ''sql'' = JUndefined"
      by simp_all
  }
qed

theorem nl_sql_extraction_witness:
  "snd (natural_language_to_sql example_env
          (answering (Resolved (JObj [(''choices'',
             JArr [JObj [(''message'', JObj [(''content'', JStr ''  SELECT 1 '')])]])])))
          (JObj [(''text'', JStr ''total sales''), (''database_id'', JNum 2)])) =
     \<lparr>res_status = 200,
      res_body = JObj [(''sql'', JStr ''SELECT 1''), (''database_id'', JNum 2)]\<rparr> \<and>
   snd (natural_language_to_sql example_env
          (answering (Resolved (JObj [(''choices'', JArr [])])))
          (JObj [(''text'', JStr ''total sales''), (''database_id'', JNum 2)])) =
     \<lparr>res_status = 500, res_body = JObj [(''error'', JStr ''No SQL generated'')]\<rparr>"
proof -
  let ?b = "JObj [(''text'', JStr ''total sales''), (''database_id'', JNum 2)]"
  let ?d1 = "JObj [(''choices'', JArr [JObj [(''message'', JObj [(''content'', JStr ''  SELECT 1 '')])]])]"
  let ?d2 = "JObj [(''choices'', JArr [])]"
  let ?p = "join_with newline (filter (\<lambda>s. s \<noteq> []) rules)"
  have t: "truthy (get_prop ?b ''text'')" and db: "truthy (get_prop ?b ''database_id'')"
    by simp_all
  have p: "permits (ALLOWED_DATABASES example_env) (get_prop ?b ''database_id'')"
    using example_permits_2 by simp
  have k: "is_set (OPENAI_API_KEY example_env)"
    by (simp add: is_set_def example_env_def)
  have sp: "systemPrompt (get_prop ?b ''schema_hint'') (get_prop ?b ''table_hints'') = Inr ?p"
    by (simp add: systemPrompt_no_hints)
  have u1: "upstream (answering (Resolved ?d1)) (openai_request example_env (nl_payload example_env ?p (get_prop ?b ''text''))) = Resolved ?d1"
    by (simp add: answering_def)
  have u2: "upstream (answering (Resolved ?d2)) (openai_request example_env (nl_payload example_env ?p (get_prop ?b ''text''))) = Resolved ?d2"
    by (simp add: answering_def)
  have c1: "first_completion_content ?d1 = JStr ''  SELECT 1 ''"
    by (simp add: first_completion_content_def opt_member_def nullish_def)
  have c2: "first_completion_content ?d2 = JUndefined"
    by (simp add: first_completion_content_def opt_member_def nullish_def)
  have tr: "trim ''  SELECT 1 '' = ''SELECT 1''"
    by (simp add: trim_def is_space_def)
  from nl_sql_extraction [OF t db p k sp u1] nl_sql_extraction [OF t db p k sp u2]
  show ?thesis
    by (simp add: c1 c2 tr nullish_def)
qed

section \<open>The answer to a created question\<close>

text \<open>
  C6. A successful POST /create_question (status 200) answers with question_id and name
  read from the object the upstream created, and with url the public share path
  /public/question/ followed by the object's public_uuid when the object has one, and
  otherwise the internal path /question/ followed by the object's id.
\<close>

theorem create_question_response:
  assumes "res_status (snd (create_question env w b)) = 200"
  shows "\<exists>created u.
           upstream w (metabase_request env ''/api/card'' ''POST''
             (card_payload (get_prop b ''name'') (get_prop b ''sql'') (get_prop b ''database_id''))) =
             Resolved created \<and>
           to_string (if truthy (get_prop created ''public_uuid'')
                      then get_prop created ''public_uuid'' else get_prop created ''id'') = Some u \<and>
           res_body (snd (create_question env w b)) =
             JObj [(''question_id'', get_prop created ''id''),
                   (''name'', get_prop created ''name''),
                   (''url'', JStr ((if truthy (get_prop created ''public_uuid'')
                                    then ''/public/question/'' else ''/question/'') @ u))]"
proof -
  from create_success [OF assms] obtain created r where
    up: "upstream w (metabase_request env ''/api/card'' ''POST''
             (card_payload (get_prop b ''name'') (get_prop b ''sql'') (get_prop b ''database_id''))) =
             Resolved created"
    and qr: "question_ref created = Inr r"
    and res: "snd (create_question env w b) = res_json r"
    by blast
  from question_ref_shape [OF qr] obtain u where
    "to_string (if truthy (get_prop created ''public_uuid'')
                then get_prop created ''public_uuid'' else get_prop created ''id'') = Some u"
    and "r = JObj [(''question_id'', get_prop created ''id''),
                   (''name'', get_prop created ''name''),
                   (''url'', JStr ((if truthy (get_prop created ''public_uuid'')
                                    then ''/public/question/'' else ''/question/'') @ u))]"
    by blast
  with up res show ?thesis
    by (intro exI [of _ created] exI [of _ u]) (simp add: res_json_def)
qed

theorem create_question_response_witness:
  "res_body (snd (create_question example_env
       (answering (Resolved (JObj [(''id'', JNum 7), (''name'', JStr ''Q1''), (''public_uuid'', JNull)])))
       (JObj [(''name'', JStr ''Q1''), (''sql'', JStr ''SELECT 1''), (''database_id'', JNum 2)]))) =
     JObj [(''question_id'', JNum 7), (''name'', JStr ''Q1''), (''url'', JStr ''/question/7'')] \<and>
   res_body (snd (create_question example_env
       (answering (Resolved (JObj [(''id'', JNum 7), (''name'', JStr ''Q1''), (''public_uuid'', JStr ''ab12'')])))
       (JObj [(''name'', JStr ''Q1''), (''sql'', JStr ''SELECT 1''), (''database_id'', JNum 2)]))) =
     JObj [(''question_id'', JNum 7), (''name'', JStr ''Q1''), (''url'', JStr ''/public/question/ab12'')]"
proof -
  let ?b = "JObj [(''name'', JStr ''Q1''), (''sql'', JStr ''SELECT 1''), (''database_id'', JNum 2)]"
  let ?c1 = "JObj [(''id'', JNum 7), (''name'', JStr ''Q1''), (''public_uuid'', JNull)]"
  let ?c2 = "JObj [(''id'', JNum 7), (''name'', JStr ''Q1''), (''public_uuid'', JStr ''ab12'')]"
  have na: "not_allowed (ALLOWED_DATABASES example_env) (JNum 2) = Inr False"
    using example_permits_2 by (simp add: permits_def)
  have ok1: "res_status (snd (create_question example_env (answering (Resolved ?c1)) ?b)) = 200"
    by (simp add: create_checked na callMetabase_result example_configured answering_def
        question_ref_def member_def nullish_def res_json_def to_string_7 del: to_string.simps)
  have ok2: "res_status (snd (create_question example_env (answering (Resolved ?c2)) ?b)) = 200"
    by (simp add: create_checked na callMetabase_result example_configured answering_def
        question_ref_def member_def nullish_def res_json_def)
  from create_question_response [OF ok1] create_question_response [OF ok2]
  show ?thesis
    by (auto simp add: answering_def string_of_int_def digit_char_def)
qed

section \<open>Fetching results and the allow-list\<close>

text \<open>
  C7. POST /get_question_results never consults the allow-list: two configurations that
  differ only in the allow-listed database identifiers give the same events and the same
  response on every request, so a saved question is run whatever databases are listed.
\<close>

theorem results_ignore_allow_list:
  "get_question_results (env\<lparr>ALLOWED_DATABASES_var := a\<rparr>) w b = get_question_results env w b"
  unfolding get_question_results_def callMetabase_allow_list by (rule refl)

theorem results_ignore_allow_list_witness:
  "get_question_results (example_env\<lparr>ALLOWED_DATABASES_var := Some ''7,8''\<rparr>)
       (answering (Resolved JNull)) (JObj [(''question_id'', JNum 123)]) =
   get_question_results example_env (answering (Resolved JNull)) (JObj [(''question_id'', JNum 123)])"
  by (rule results_ignore_allow_list)

section \<open>Missing analytics credentials\<close>

text \<open>
  C8. With the analytics base URL or API key unset (or empty), every call of
  \<open>callMetabase\<close> throws the "Metabase not configured" error before any request is
  sent; create-question and fetch-results surface it as 500 and send nothing; and the
  translate endpoint does not depend on the analytics configuration at all, its credential
  check reading the language-model key only.
\<close>

theorem metabase_not_configured:
  assumes "\<not> is_set (METABASE_URL env) \<or> \<not> is_set (METABASE_API_KEY env)"
  shows "callMetabase env w p m d =
           ([MetabaseCall p m d],
            Inl (Error ''Metabase not configured (METABASE_URL / METABASE_API_KEY).'')) \<and>
         (truthy (get_prop b ''name'') \<and> truthy (get_prop b ''sql'') \<and>
          truthy (get_prop b ''database_id'') \<and>
          permits (ALLOWED_DATABASES env) (get_prop b ''database_id'') \<longrightarrow>
            create_question env w b =
              ([MetabaseCall ''/api/card'' ''POST''
                  (card_payload (get_prop b ''name'') (get_prop b ''sql'') (get_prop b ''database_id''))],
               \<lparr>res_status = 500,
                res_body =
                  JObj [(''error'', JStr ''create_question failed''),
                        (''details'',
                           JStr ''Metabase not configured (METABASE_URL / METABASE_API_KEY).'')]\<rparr>)) \<and>
         (truthy (get_prop b ''question_id'') \<and> to_string (get_prop b ''question_id'') = Some s \<longrightarrow>
            get_question_results env w b =
              ([MetabaseCall (''/api/card/'' @ s @ ''/query'') ''POST'' (JObj [(''parameters'', JArr [])])],
               \<lparr>res_status = 500,
                res_body =
                  JObj [(''error'', JStr ''get_question_results failed''),
                        (''details'',
                           JStr ''Metabase not configured (METABASE_URL / METABASE_API_KEY).'')]\<rparr>)) \<and>
         (\<forall>r. HttpRequest r \<notin> set (fst (create_question env w b)) \<and>
              HttpRequest r \<notin> set (fst (get_question_results env w b))) \<and>
         natural_language_to_sql (env\<lparr>METABASE_URL := u, METABASE_API_KEY := k\<rparr>) w b =
           natural_language_to_sql env w b"
proof (intro conjI impI allI)
  have nc: "\<not> metabase_configured env"
    using assms by (auto simp add: metabase_configured_def)
  show "callMetabase env w p m d =
           ([MetabaseCall p m d],
            Inl (Error ''Metabase not configured (METABASE_URL / METABASE_API_KEY).''))"
    using assms by (auto simp add: callMetabase_def not_configured_def)
  have details: "err_details w not_configured =
      JStr ''Metabase not configured (METABASE_URL / METABASE_API_KEY).''"
    by (simp add: err_details_def err_text_def not_configured_def)
  {
    assume "truthy (get_prop b ''name'') \<and> truthy (get_prop b ''sql'') \<and>
          truthy (get_prop b ''database_id'') \<and>
          permits (ALLOWED_DATABASES env) (get_prop b ''database_id'')"
    then show "create_question env w b =
              ([MetabaseCall ''/api/card'' ''POST''
                  (card_payload (get_prop b ''name'') (get_prop b ''sql'') (get_prop b ''database_id''))],
               \<lparr>res_status = 500,
                res_body =
                  JObj [(''error'', JStr ''create_question failed''),
                        (''details'',
                           JStr ''Metabase not configured (METABASE_URL / METABASE_API_KEY).'')]\<rparr>)"
      using nc
      by (simp add: create_checked permits_def callMetabase_events callMetabase_result
          create_failed_def details res_status_json_def)
  }
  {
    assume "truthy (get_prop b ''question_id'') \<and> to_string (get_prop b ''question_id'') = Some s"
    then show "get_question_results env w b =
              ([MetabaseCall (''/api/card/'' @ s @ ''/query'') ''POST'' (JObj [(''parameters'', JArr [])])],
               \<lparr>res_status = 500,
                res_body =
                  JObj [(''error'', JStr ''get_question_results failed''),
                        (''details'',
                           JStr ''Metabase not configured (METABASE_URL / METABASE_API_KEY).'')]\<rparr>)"
      using nc
      by (simp add: results_checked callMetabase_events callMetabase_result
          results_failed_def details res_status_json_def)
  }
  {
    fix r
    show "HttpRequest r \<notin> set (fst (create_question env w b))"
      using nc
      by (auto simp add: create_question_def Let_def callMetabase_def metabase_configured_def
          split: sum.splits if_splits prod.splits)
    show "HttpRequest r \<notin> set (fst (get_question_results env w b))"
      using nc
      by (auto simp add: get_question_results_def Let_def callMetabase_def metabase_configured_def
          split: sum.splits if_splits prod.splits option.splits)
  }
  have "ALLOWED_DATABASES (env\<lparr>METABASE_URL := u, METABASE_API_KEY := k\<rparr>) = ALLOWED_DATABASES env"
    by (simp add: ALLOWED_DATABASES_def)
  moreover have "\<And>x. openai_request (env\<lparr>METABASE_URL := u, METABASE_API_KEY := k\<rparr>) x = openai_request env x"
    by (simp add: openai_request_def)
  moreover have "\<And>x y. nl_payload (env\<lparr>METABASE_URL := u, METABASE_API_KEY := k\<rparr>) x y = nl_payload env x y"
    by (simp add: nl_payload_def)
  moreover have "OPENAI_API_KEY (env\<lparr>METABASE_URL := u, METABASE_API_KEY := k\<rparr>) = OPENAI_API_KEY env"
    by simp
  ultimately show "natural_language_to_sql (env\<lparr>METABASE_URL := u, METABASE_API_KEY := k\<rparr>) w b =
           natural_language_to_sql env w b"
    unfolding natural_language_to_sql_def by (simp only:)
qed

theorem metabase_not_configured_witness:
  "callMetabase (example_env\<lparr>METABASE_API_KEY := Some []\<rparr>) (answering (Resolved JNull))
       ''/api/card'' ''POST'' JNull =
     ([MetabaseCall ''/api/card'' ''POST'' JNull],
      Inl (Error ''Metabase not configured (METABASE_URL / METABASE_API_KEY).'')) \<and>
   get_question_results (example_env\<lparr>METABASE_API_KEY := Some []\<rparr>) (answering (Resolved JNull))
       (JObj [(''question_id'', JNum 123)]) =
     ([MetabaseCall ''/api/card/123/query'' ''POST'' (JObj [(''parameters'', JArr [])])],
      \<lparr>res_status = 500,
       res_body =
         JObj [(''error'', JStr ''get_question_results failed''),
               (''details'', JStr ''Metabase not configured (METABASE_URL / METABASE_API_KEY).'')]\<rparr>) \<and>
   create_question (example_env\<lparr>METABASE_API_KEY := Some []\<rparr>) (answering (Resolved JNull))
       (JObj [(''name'', JStr ''Q1''), (''sql'', JStr ''SELECT 1''), (''database_id'', JNum 2)]) =
     ([MetabaseCall ''/api/card'' ''POST''
         (card_payload (JStr ''Q1'') (JStr ''SELECT 1'') (JNum 2))],
      \<lparr>res_status = 500,
       res_body =
         JObj [(''error'', JStr ''create_question failed''),
               (''details'', JStr ''Metabase not configured (METABASE_URL / METABASE_API_KEY).'')]\<rparr>)"
proof -
  let ?env = "example_env\<lparr>METABASE_API_KEY := Some []\<rparr>"
  have h: "\<not> is_set (METABASE_URL ?env) \<or> \<not> is_set (METABASE_API_KEY ?env)"
    by (simp add: is_set_def)
  have al: "ALLOWED_DATABASES ?env = [''2'']"
    by (simp add: ALLOWED_DATABASES_def example_env_def or_else_def trim_def is_space_def)
  have p: "permits [''2''] (JNum 2)"
    by (simp add: permits_iff to_string_2 del: to_string.simps)
  from metabase_not_configured [OF h, of "answering (Resolved JNull)" "''/api/card''" "''POST''" JNull
      "JObj [(''question_id'', JNum 123)]" "''123''"]
    metabase_not_configured [OF h, of "answering (Resolved JNull)" "''/api/card''" "''POST''" JNull
      "JObj [(''name'', JStr ''Q1''), (''sql'', JStr ''SELECT 1''), (''database_id'', JNum 2)]" "''2''"]
  show ?thesis
    by (simp add: al p to_string_123 del: to_string.simps)
qed

section \<open>Falsy required fields\<close>

text \<open>
  C9. On each of the three POST endpoints a required field whose value is falsy (the
  number 0, the empty string, false, null, as well as an absent field) is treated as
  missing: the answer is 400 and no outbound call is made, although the field is in the
  body. So database_id 0 and question_id 0 are refused as missing.
\<close>

theorem falsy_required_field_rejected:
  "(\<not> truthy (get_prop b ''text'') \<or> \<not> truthy (get_prop b ''database_id'') \<longrightarrow>
      natural_language_to_sql env w b =
        ([], \<lparr>res_status = 400,
              res_body = JObj [(''error'', JStr ''text and database_id are required'')]\<rparr>)) \<and>
   (\<not> truthy (get_prop b ''name'') \<or> \<not> truthy (get_prop b ''sql'') \<or>
    \<not> truthy (get_prop b ''database_id'') \<longrightarrow>
      create_question env w b =
        ([], \<lparr>res_status = 400,
              res_body = JObj [(''error'', JStr ''name, sql, database_id are required'')]\<rparr>)) \<and>
   (\<not> truthy (get_prop b ''question_id'') \<longrightarrow>
      get_question_results env w b =
        ([], \<lparr>res_status = 400, res_body = JObj [(''error'', JStr ''question_id is required'')]\<rparr>)) \<and>
   \<not> truthy (JNum 0) \<and> \<not> truthy (JStr []) \<and> \<not> truthy (JBool False) \<and> \<not> truthy JNull"
  using nl_missing [of b env w] create_missing [of b env w] results_missing [of b env w]
  by (simp add: res_status_json_def)

theorem falsy_required_field_rejected_witness:
  "natural_language_to_sql example_env (answering (Resolved JNull))
       (JObj [(''text'', JStr ''total sales''), (''database_id'', JNum 0)]) =
     ([], \<lparr>res_status = 400,
           res_body = JObj [(''error'', JStr ''text and database_id are required'')]\<rparr>) \<and>
   create_question example_env (answering (Resolved JNull))
       (JObj [(''name'', JStr []), (''sql'', JStr ''SELECT 1''), (''database_id'', JNum 2)]) =
     ([], \<lparr>res_status = 400,
           res_body = JObj [(''error'', JStr ''name, sql, database_id are required'')]\<rparr>) \<and>
   get_question_results example_env (answering (Resolved JNull)) (JObj [(''question_id'', JNum 0)]) =
     ([], \<lparr>res_status = 400, res_body = JObj [(''error'', JStr ''question_id is required'')]\<rparr>)"
  using falsy_required_field_rejected [of "JObj [(''text'', JStr ''total sales''), (''database_id'', JNum 0)]"
      example_env "answering (Resolved JNull)"]
    falsy_required_field_rejected [of "JObj [(''name'', JStr []), (''sql'', JStr ''SELECT 1''), (''database_id'', JNum 2)]"
      example_env "answering (Resolved JNull)"]
    falsy_required_field_rejected [of "JObj [(''question_id'', JNum 0)]"
      example_env "answering (Resolved JNull)"]
  by simp

section \<open>Liveness\<close>

text \<open>
  C10. GET /health answers 200 with a body whose ok is true and whose service is the
  service's name, for every request and every configuration, the upstream credentials and
  base URLs set or not; it makes no outbound call.
\<close>

theorem health_ok:
  "health env w b =
     ([], \<lparr>res_status = 200,
           res_body = JObj [(''ok'', JBool True), (''service'', JStr ''metabase-mcp-server'')]\<rparr>)"
  by (simp add: health_def res_json_def)

theorem health_ok_witness:
  "health \<lparr>METABASE_URL = None, METABASE_API_KEY = None, OPENAI_API_KEY = None,
           ALLOWED_DATABASES_var = None, NL_SQL_MODEL = None\<rparr>
       (answering (Rejected ''timeout of 30000ms exceeded'' None)) JUndefined =
     ([], \<lparr>res_status = 200,
           res_body = JObj [(''ok'', JBool True), (''service'', JStr ''metabase-mcp-server'')]\<rparr>)"
  by (rule health_ok)

end
